theory Spec2Isabelle
  imports Main
begin

section \<open>JavaScript values as the chat handler sees them\<close>

text \<open>
  The handler of \<^verbatim>\<open>POST /api/chat\<close> in \<^verbatim>\<open>src/server/server.js\<close> reads three
  properties of the parsed JSON request body, calls one of two remote services through
  \<^verbatim>\<open>fetch\<close> and answers with \<^verbatim>\<open>res.status(..).json(..)\<close>. Every value it touches is
  either the result of \<^verbatim>\<open>JSON.parse\<close> or \<^verbatim>\<open>undefined\<close> (an absent property).

  A number is held as the text that JavaScript's number-to-string conversion gives for it
  (\<open>''0''\<close> for both zeros): the handler only ever tests a number for truthiness or
  interpolates it into a string, and both are functions of that text. An object is the list
  of its own properties; a property is looked up by its name. No value is callable.
\<close>

datatype jsval =
    JUndefined
  | JNull
  | JBool bool
  | JNum string
  | JStr string
  | JArr "jsval list"
  | JObj "(string \<times> jsval) list"

text \<open>ToBoolean: what \<^verbatim>\<open>!v\<close>, \<^verbatim>\<open>if (v)\<close> and \<^verbatim>\<open>v || w\<close> test.\<close>

fun truthy :: "jsval \<Rightarrow> bool" where
  "truthy JUndefined = False"
| "truthy JNull = False"
| "truthy (JBool b) = b"
| "truthy (JNum n) = (n \<noteq> ''0'' \<and> n \<noteq> ''NaN'')"
| "truthy (JStr s) = (s \<noteq> [])"
| "truthy (JArr xs) = True"
| "truthy (JObj kvs) = True"

fun nullish :: "jsval \<Rightarrow> bool" where
  "nullish JUndefined = True"
| "nullish JNull = True"
| "nullish v = False"

fun join :: "string \<Rightarrow> string list \<Rightarrow> string" where
  "join sep [] = []"
| "join sep [s] = s"
| "join sep (s # t # ss) = s @ sep @ join sep (t # ss)"

text \<open>
  An exception value: the handler reads \<^verbatim>\<open>e.code\<close> and \<^verbatim>\<open>error.message\<close> of what it
  catches and nothing else.
\<close>

record js_error =
  code :: jsval
  message :: string

text \<open>The TypeError that V8 raises when an object has no usable conversion to a primitive.\<close>

definition cannot_convert :: js_error where
  "cannot_convert = \<lparr>code = JUndefined, message = ''Cannot convert object to primitive value''\<rparr>"

text \<open>The conversions of the elements of an array, left to right, up to the first that throws.\<close>

fun collect :: "(js_error + string) list \<Rightarrow> js_error + string list" where
  "collect [] = Inr []"
| "collect (Inl e # rs) = Inl e"
| "collect (Inr s # rs) = (case collect rs of Inl e \<Rightarrow> Inl e | Inr ss \<Rightarrow> Inr (s # ss))"

text \<open>
  ToString: what a template literal and \<^verbatim>\<open>new Error(v)\<close> apply to a value. An array is
  joined with commas, \<^verbatim>\<open>null\<close> and \<^verbatim>\<open>undefined\<close> elements giving the empty string. A
  plain object inherits \<^verbatim>\<open>Object.prototype.toString\<close>; an own property \<^verbatim>\<open>toString\<close>
  hides it, and since that property is not callable and \<^verbatim>\<open>valueOf\<close> gives no primitive
  either, the conversion throws.
\<close>

fun to_string :: "jsval \<Rightarrow> js_error + string" where
  "to_string JUndefined = Inr ''undefined''"
| "to_string JNull = Inr ''null''"
| "to_string (JBool b) = Inr (if b then ''true'' else ''false'')"
| "to_string (JNum n) = Inr n"
| "to_string (JStr s) = Inr s"
| "to_string (JArr xs) =
     (case collect (map (\<lambda>x. if nullish x then Inr [] else to_string x) xs) of
        Inl e \<Rightarrow> Inl e
      | Inr ss \<Rightarrow> Inr (join '','' ss))"
| "to_string (JObj kvs) =
     (if map_of kvs ''toString'' = None then Inr ''[object Object]'' else Inl cannot_convert)"

text \<open>
  \<^verbatim>\<open>throw new Error(v)\<close>: what is thrown is the new error, with no \<^verbatim>\<open>code\<close> property and
  ToString of the argument as its message, or the TypeError of that conversion.
\<close>

definition throw_new_Error :: "jsval \<Rightarrow> js_error" where
  "throw_new_Error v =
     (case to_string v of
        Inl e \<Rightarrow> e
      | Inr s \<Rightarrow> \<lparr>code = JUndefined, message = s\<rparr>)"

text \<open>The TypeError that V8 raises for a property read on \<^verbatim>\<open>null\<close> or \<^verbatim>\<open>undefined\<close>.\<close>

definition type_error :: "jsval \<Rightarrow> string \<Rightarrow> js_error" where
  "type_error v name =
     \<lparr>code = JUndefined,
      message = ''Cannot read properties of '' @ (if v = JNull then ''null'' else ''undefined'')
                @ '' (reading '' @ [CHR 0x27] @ name @ [CHR 0x27] @ '')''\<rparr>"

text \<open>
  \<^verbatim>\<open>v.name\<close> on a value that is neither \<^verbatim>\<open>null\<close> nor \<^verbatim>\<open>undefined\<close>, for the names
  this handler reads (\<^verbatim>\<open>response\<close>, \<^verbatim>\<open>error\<close>, \<^verbatim>\<open>message\<close>, \<^verbatim>\<open>candidates\<close>,
  \<^verbatim>\<open>content\<close>, \<^verbatim>\<open>parts\<close>, \<^verbatim>\<open>text\<close>): none of them is a property of an array, a
  string, a number or a boolean, so only an object can hold one.
\<close>

fun read_prop :: "jsval \<Rightarrow> string \<Rightarrow> jsval" where
  "read_prop (JObj kvs) name = (case map_of kvs name of None \<Rightarrow> JUndefined | Some v \<Rightarrow> v)"
| "read_prop v name = JUndefined"

text \<open>\<^verbatim>\<open>v[0]\<close> on a value that is neither \<^verbatim>\<open>null\<close> nor \<^verbatim>\<open>undefined\<close>.\<close>

fun elem0 :: "jsval \<Rightarrow> jsval" where
  "elem0 (JArr xs) = (case xs of [] \<Rightarrow> JUndefined | x # _ \<Rightarrow> x)"
| "elem0 (JStr s) = (case s of [] \<Rightarrow> JUndefined | c # _ \<Rightarrow> JStr [c])"
| "elem0 (JObj kvs) = (case map_of kvs ''0'' of None \<Rightarrow> JUndefined | Some v \<Rightarrow> v)"
| "elem0 v = JUndefined"

text \<open>Plain member access \<^verbatim>\<open>v.name\<close>: throws on \<^verbatim>\<open>null\<close> and \<^verbatim>\<open>undefined\<close>.\<close>

definition get_prop :: "jsval \<Rightarrow> string \<Rightarrow> js_error + jsval" where
  "get_prop v name = (if nullish v then Inl (type_error v name) else Inr (read_prop v name))"

text \<open>Optional chaining \<^verbatim>\<open>v?.name\<close> and \<^verbatim>\<open>v?.[0]\<close>: \<^verbatim>\<open>undefined\<close> on a nullish value.\<close>

definition opt_prop :: "jsval \<Rightarrow> string \<Rightarrow> jsval" where
  "opt_prop v name = (if nullish v then JUndefined else read_prop v name)"

definition opt_elem0 :: "jsval \<Rightarrow> jsval" where
  "opt_elem0 v = (if nullish v then JUndefined else elem0 v)"

section \<open>Requests, the network and responses\<close>

text \<open>\<^verbatim>\<open>const { prompt, useLocal, apiKey } = req.body\<close>; an absent property is \<open>JUndefined\<close>.\<close>

record chat_request =
  prompt :: jsval
  useLocal :: jsval
  apiKey :: jsval

text \<open>
  One call of \<^verbatim>\<open>fetch(url, { method, headers, body: JSON.stringify(payload) })\<close>; the body
  is kept as the value that is serialised.
\<close>

record http_request =
  req_url :: string
  req_method :: string
  req_headers :: "(string \<times> string) list"
  req_body :: jsval

text \<open>
  What \<^verbatim>\<open>fetch\<close> resolves to: the status line and what \<^verbatim>\<open>.json()\<close> gives, a parsed
  value or the exception it throws on a body that cannot be read or parsed.
\<close>

record http_reply =
  status :: nat
  statusText :: string
  json :: "js_error + jsval"

definition ok :: "http_reply \<Rightarrow> bool" where
  "ok r = (200 \<le> status r \<and> status r \<le> 299)"

datatype fetch_outcome = Rejected js_error | Resolved http_reply

text \<open>The remote services: how each outbound request is answered.\<close>

type_synonym network = "http_request \<Rightarrow> fetch_outcome"

text \<open>\<^verbatim>\<open>res.status(c).json(v)\<close>; \<^verbatim>\<open>res.json(v)\<close> alone leaves the status at 200.\<close>

record http_response =
  res_status :: nat
  res_json :: jsval

text \<open>
  How the body of the \<^verbatim>\<open>try\<close> block ends: with an early \<^verbatim>\<open>return res...\<close>, with an
  exception, or by falling through with \<^verbatim>\<open>llmResponseText\<close> assigned.
\<close>

datatype completion = Return http_response | Throw js_error | Text jsval

section \<open>The local branch (Ollama)\<close>

definition ollamaUrl :: string where
  "ollamaUrl = ''http://localhost:11434/api/generate''"

definition ollamaPayload :: "jsval \<Rightarrow> jsval" where
  "ollamaPayload p =
     JObj [(''model'', JStr ''gemma3:12b-it-qat''), (''prompt'', p), (''stream'', JBool False)]"

definition json_headers :: "(string \<times> string) list" where
  "json_headers = [(''Content-Type'', ''application/json'')]"

definition ollama_fetch :: "jsval \<Rightarrow> http_request" where
  "ollama_fetch p =
     \<lparr>req_url = ollamaUrl, req_method = ''POST'', req_headers = json_headers,
      req_body = ollamaPayload p\<rparr>"

text \<open>The inner \<^verbatim>\<open>try\<close> block: fetch, status check, \<^verbatim>\<open>.json()\<close>, \<^verbatim>\<open>ollamaData.response\<close>.\<close>

definition ollama_try :: "network \<Rightarrow> jsval \<Rightarrow> js_error + jsval" where
  "ollama_try net p =
     (case net (ollama_fetch p) of
        Rejected e \<Rightarrow> Inl e
      | Resolved ollamaRes \<Rightarrow>
          if \<not> ok ollamaRes
          then Inl (throw_new_Error
                      (JStr (''Ollama server returned an error: '' @ statusText ollamaRes)))
          else (case json ollamaRes of
                  Inl e \<Rightarrow> Inl e
                | Inr ollamaData \<Rightarrow> get_prop ollamaData ''response''))"

text \<open>The inner \<^verbatim>\<open>catch (e)\<close>: a refused connection gets its own message, the rest is rethrown.\<close>

definition ollama_catch :: "js_error \<Rightarrow> js_error" where
  "ollama_catch e =
     (if code e = JStr ''ECONNREFUSED''
      then throw_new_Error (JStr ''Could not connect to the local Ollama server. Please ensure it is running on http://localhost:11434.'')
      else e)"

definition local_branch :: "network \<Rightarrow> jsval \<Rightarrow> http_request list \<times> completion" where
  "local_branch net p =
     ([ollama_fetch p],
      case ollama_try net p of
        Inl e \<Rightarrow> Throw (ollama_catch e)
      | Inr llmResponseText \<Rightarrow> Text llmResponseText)"

section \<open>The cloud branch (Gemini)\<close>

definition geminiPayload :: "jsval \<Rightarrow> jsval" where
  "geminiPayload p =
     JObj [(''contents'',
            JArr [JObj [(''role'', JStr ''user''), (''parts'', JArr [JObj [(''text'', p)]])]])]"

text \<open>The template literal of the URL converts \<^verbatim>\<open>apiKey\<close> to a string, which may throw.\<close>

definition geminiApiUrl :: "jsval \<Rightarrow> js_error + string" where
  "geminiApiUrl k =
     (case to_string k of
        Inl e \<Rightarrow> Inl e
      | Inr s \<Rightarrow>
          Inr (''https://generativelanguage.googleapis.com/v1beta/models/gemini-2.0-flash:generateContent?key=''
               @ s))"

definition gemini_fetch :: "jsval \<Rightarrow> string \<Rightarrow> http_request" where
  "gemini_fetch p url =
     \<lparr>req_url = url, req_method = ''POST'', req_headers = json_headers,
      req_body = geminiPayload p\<rparr>"

text \<open>\<^verbatim>\<open>errorData.error?.message || 'Gemini API request failed'\<close>\<close>

definition gemini_error_arg :: "jsval \<Rightarrow> js_error + jsval" where
  "gemini_error_arg errorData =
     (case get_prop errorData ''error'' of
        Inl e \<Rightarrow> Inl e
      | Inr err \<Rightarrow>
          let m = opt_prop err ''message''
          in Inr (if truthy m then m else JStr ''Gemini API request failed''))"

text \<open>\<^verbatim>\<open>geminiResult.candidates?.[0]?.content?.parts?.[0]?.text\<close>\<close>

definition gemini_text :: "jsval \<Rightarrow> js_error + jsval" where
  "gemini_text geminiResult =
     (case get_prop geminiResult ''candidates'' of
        Inl e \<Rightarrow> Inl e
      | Inr candidates \<Rightarrow>
          Inr (opt_prop (opt_elem0 (opt_prop (opt_prop (opt_elem0 candidates) ''content'') ''parts''))
                 ''text''))"

definition gemini_respond :: "http_reply \<Rightarrow> completion" where
  "gemini_respond geminiResponse =
     (if \<not> ok geminiResponse
      then (case json geminiResponse of
              Inl e \<Rightarrow> Throw e
            | Inr errorData \<Rightarrow>
                (case gemini_error_arg errorData of
                   Inl e \<Rightarrow> Throw e
                 | Inr m \<Rightarrow> Throw (throw_new_Error m)))
      else (case json geminiResponse of
              Inl e \<Rightarrow> Throw e
            | Inr geminiResult \<Rightarrow>
                (case gemini_text geminiResult of
                   Inl e \<Rightarrow> Throw e
                 | Inr t \<Rightarrow>
                     if truthy t then Text t
                     else Throw (throw_new_Error
                                  (JStr ''No content found in Gemini API response.'')))))"

definition cloud_branch :: "network \<Rightarrow> jsval \<Rightarrow> jsval \<Rightarrow> http_request list \<times> completion" where
  "cloud_branch net p k =
     (if \<not> truthy k
      then ([], Return \<lparr>res_status = 400,
                        res_json = JObj [(''message'', JStr ''API Key is required for Cloud model.'')]\<rparr>)
      else (case geminiApiUrl k of
              Inl e \<Rightarrow> ([], Throw e)
            | Inr url \<Rightarrow>
                ([gemini_fetch p url],
                 case net (gemini_fetch p url) of
                   Rejected e \<Rightarrow> Throw e
                 | Resolved geminiResponse \<Rightarrow> gemini_respond geminiResponse)))"

section \<open>The handler\<close>

text \<open>
  The end of the handler: an early return stands, a value is sent as
  \<^verbatim>\<open>res.json({ response: llmResponseText })\<close>, and the outer \<^verbatim>\<open>catch (error)\<close> answers
  \<^verbatim>\<open>res.status(500).json({ message: `Internal server error: ${error.message}` })\<close>.
\<close>

fun finish :: "completion \<Rightarrow> http_response" where
  "finish (Return r) = r"
| "finish (Text llmResponseText) =
     \<lparr>res_status = 200, res_json = JObj [(''response'', llmResponseText)]\<rparr>"
| "finish (Throw error) =
     \<lparr>res_status = 500,
      res_json = JObj [(''message'', JStr (''Internal server error: '' @ message error))]\<rparr>"

definition try_body :: "network \<Rightarrow> chat_request \<Rightarrow> http_request list \<times> completion" where
  "try_body net rq =
     (if truthy (useLocal rq) then local_branch net (prompt rq)
      else cloud_branch net (prompt rq) (apiKey rq))"

text \<open>
  \<^verbatim>\<open>app.post('/api/chat', ...)\<close>: the requests sent out, in order, and the response.
\<close>

definition api_chat :: "network \<Rightarrow> chat_request \<Rightarrow> http_request list \<times> http_response" where
  "api_chat net rq =
     (if \<not> truthy (prompt rq)
      then ([], \<lparr>res_status = 400, res_json = JObj [(''message'', JStr ''Prompt is required.'')]\<rparr>)
      else (fst (try_body net rq), finish (snd (try_body net rq))))"

text \<open>Simulated services: one that answers every request alike, one that cannot be reached.\<close>

definition answering :: "http_reply \<Rightarrow> network" where
  "answering r rq = Resolved r"

definition failing :: "js_error \<Rightarrow> network" where
  "failing e rq = Rejected e"

section \<open>Shared facts\<close>

lemma api_chat_falsy_prompt:
  "\<not> truthy (prompt rq) \<Longrightarrow>
   api_chat net rq =
     ([], \<lparr>res_status = 400, res_json = JObj [(''message'', JStr ''Prompt is required.'')]\<rparr>)"
  by (simp add: api_chat_def)

lemmas local_defs = try_body_def local_branch_def ollama_try_def ollama_catch_def
  throw_new_Error_def

lemmas cloud_defs = try_body_def cloud_branch_def gemini_respond_def gemini_error_arg_def
  gemini_text_def throw_new_Error_def geminiApiUrl_def

lemmas request_defs = ollama_fetch_def ollamaUrl_def ollamaPayload_def json_headers_def
  gemini_fetch_def geminiPayload_def

lemmas access_defs = get_prop_def opt_prop_def opt_elem0_def

section \<open>Prompt validation\<close>

text \<open>
  C1, as stated, fails: a prompt of three spaces is a non-empty string, so \<^verbatim>\<open>!prompt\<close> is
  false; with the local backend selected the prompt is sent to the local service untrimmed
  and the service's text comes back with status 200.
\<close>

theorem whitespace_prompt_reaches_backend:
  "api_chat
     (answering \<lparr>status = 200, statusText = ''OK'',
                 json = Inr (JObj [(''response'', JStr ''hi'')])\<rparr>)
     \<lparr>prompt = JStr ''   '', useLocal = JBool True, apiKey = JUndefined\<rparr>
   = ([\<lparr>req_url = ''http://localhost:11434/api/generate'', req_method = ''POST'',
        req_headers = [(''Content-Type'', ''application/json'')],
        req_body = JObj [(''model'', JStr ''gemma3:12b-it-qat''), (''prompt'', JStr ''   ''),
                         (''stream'', JBool False)]\<rparr>],
      \<lparr>res_status = 200, res_json = JObj [(''response'', JStr ''hi'')]\<rparr>)"
  by (simp add: api_chat_def local_defs request_defs answering_def ok_def get_prop_def)

text \<open>
  C1, amended: for every request whose prompt is absent or empty (falsy: no trimming is
  applied), the handler answers status 400 with the message \<open>Prompt is required.\<close>,
  whichever backend is selected, whatever credential is supplied and whatever the remote
  services would answer; nothing is sent out.
\<close>

theorem empty_prompt_rejected:
  "\<not> truthy (prompt rq) \<Longrightarrow>
   api_chat net rq =
     ([], \<lparr>res_status = 400, res_json = JObj [(''message'', JStr ''Prompt is required.'')]\<rparr>)"
  by (rule api_chat_falsy_prompt)

theorem empty_prompt_rejected_witness:
  "\<not> truthy (prompt \<lparr>prompt = JStr [], useLocal = JBool True, apiKey = JStr ''k''\<rparr>) \<and>
   api_chat (failing \<lparr>code = JUndefined, message = ''unreachable''\<rparr>)
     \<lparr>prompt = JStr [], useLocal = JBool True, apiKey = JStr ''k''\<rparr> =
     ([], \<lparr>res_status = 400, res_json = JObj [(''message'', JStr ''Prompt is required.'')]\<rparr>)"
proof -
  have h: "\<not> truthy (prompt \<lparr>prompt = JStr [], useLocal = JBool True, apiKey = JStr ''k''\<rparr>)"
    by simp
  from empty_prompt_rejected [OF h] h show ?thesis by simp
qed

section \<open>The outer catch\<close>

text \<open>
  C2, as stated, fails: when the local service answers 503 the local branch throws its own
  error, \<open>Ollama server returned an error: Service Unavailable\<close>, and the handler does not
  return that message unchanged: it answers 500 with the message prefixed by
  \<open>Internal server error: \<close>.
\<close>

theorem classified_failure_is_prefixed:
  "snd (try_body
          (answering \<lparr>status = 503, statusText = ''Service Unavailable'', json = Inr JNull\<rparr>)
          \<lparr>prompt = JStr ''hi'', useLocal = JBool True, apiKey = JUndefined\<rparr>)
     = Throw \<lparr>code = JUndefined,
              message = ''Ollama server returned an error: Service Unavailable''\<rparr>
   \<and> snd (api_chat
          (answering \<lparr>status = 503, statusText = ''Service Unavailable'', json = Inr JNull\<rparr>)
          \<lparr>prompt = JStr ''hi'', useLocal = JBool True, apiKey = JUndefined\<rparr>)
     = \<lparr>res_status = 500,
        res_json = JObj [(''message'',
          JStr ''Internal server error: Ollama server returned an error: Service Unavailable'')]\<rparr>
   \<and> snd (api_chat
          (answering \<lparr>status = 503, statusText = ''Service Unavailable'', json = Inr JNull\<rparr>)
          \<lparr>prompt = JStr ''hi'', useLocal = JBool True, apiKey = JUndefined\<rparr>)
     \<noteq> \<lparr>res_status = 500,
        res_json = JObj [(''message'',
          JStr ''Ollama server returned an error: Service Unavailable'')]\<rparr>"
  by (simp add: api_chat_def local_defs answering_def ok_def)

text \<open>
  C2, amended: every exception that leaves either branch, whether the branch raised it for
  a failure it recognised (connection refused, non-success status, missing field) or not,
  is answered with status 500 and the message \<open>Internal server error: \<close> followed by the
  exception's message.
\<close>

theorem every_thrown_error_is_wrapped:
  "truthy (prompt rq) \<Longrightarrow> snd (try_body net rq) = Throw e \<Longrightarrow>
   snd (api_chat net rq) =
     \<lparr>res_status = 500,
      res_json = JObj [(''message'', JStr (''Internal server error: '' @ message e))]\<rparr>"
  by (simp add: api_chat_def)

theorem every_thrown_error_is_wrapped_witness:
  "truthy (prompt \<lparr>prompt = JStr ''hi'', useLocal = JBool False, apiKey = JStr ''k''\<rparr>) \<and>
   snd (try_body (failing \<lparr>code = JStr ''ENOTFOUND'', message = ''getaddrinfo ENOTFOUND''\<rparr>)
          \<lparr>prompt = JStr ''hi'', useLocal = JBool False, apiKey = JStr ''k''\<rparr>)
     = Throw \<lparr>code = JStr ''ENOTFOUND'', message = ''getaddrinfo ENOTFOUND''\<rparr> \<and>
   snd (api_chat (failing \<lparr>code = JStr ''ENOTFOUND'', message = ''getaddrinfo ENOTFOUND''\<rparr>)
          \<lparr>prompt = JStr ''hi'', useLocal = JBool False, apiKey = JStr ''k''\<rparr>)
     = \<lparr>res_status = 500,
        res_json = JObj [(''message'', JStr ''Internal server error: getaddrinfo ENOTFOUND'')]\<rparr>"
proof -
  have h1: "truthy (prompt \<lparr>prompt = JStr ''hi'', useLocal = JBool False, apiKey = JStr ''k''\<rparr>)"
    by simp
  have h2: "snd (try_body
                  (failing \<lparr>code = JStr ''ENOTFOUND'', message = ''getaddrinfo ENOTFOUND''\<rparr>)
                  \<lparr>prompt = JStr ''hi'', useLocal = JBool False, apiKey = JStr ''k''\<rparr>)
     = Throw \<lparr>code = JStr ''ENOTFOUND'', message = ''getaddrinfo ENOTFOUND''\<rparr>"
    by (simp add: cloud_defs failing_def)
  from every_thrown_error_is_wrapped [OF h1 h2] h1 h2 show ?thesis by simp
qed

section \<open>Order of the two validations\<close>

text \<open>
  C10: prompt validation precedes credential validation. For every request with an absent
  or empty prompt, the cloud backend selected and an absent or empty credential, the
  handler answers 400 with the message \<open>Prompt is required.\<close>, never the message about
  the missing API key.
\<close>

theorem prompt_check_precedes_key_check:
  assumes "\<not> truthy (prompt rq)" and "\<not> truthy (useLocal rq)" and "\<not> truthy (apiKey rq)"
  shows "snd (api_chat net rq) =
           \<lparr>res_status = 400, res_json = JObj [(''message'', JStr ''Prompt is required.'')]\<rparr>
       \<and> snd (api_chat net rq) \<noteq>
           \<lparr>res_status = 400,
            res_json = JObj [(''message'', JStr ''API Key is required for Cloud model.'')]\<rparr>"
  using api_chat_falsy_prompt [OF assms(1), of net] by simp

theorem prompt_check_precedes_key_check_witness:
  "snd (api_chat (failing \<lparr>code = JUndefined, message = ''down''\<rparr>)
          \<lparr>prompt = JUndefined, useLocal = JBool False, apiKey = JUndefined\<rparr>) =
           \<lparr>res_status = 400, res_json = JObj [(''message'', JStr ''Prompt is required.'')]\<rparr>
       \<and> snd (api_chat (failing \<lparr>code = JUndefined, message = ''down''\<rparr>)
          \<lparr>prompt = JUndefined, useLocal = JBool False, apiKey = JUndefined\<rparr>) \<noteq>
           \<lparr>res_status = 400,
            res_json = JObj [(''message'', JStr ''API Key is required for Cloud model.'')]\<rparr>"
proof -
  let ?rq = "\<lparr>prompt = JUndefined, useLocal = JBool False, apiKey = JUndefined\<rparr>"
  have p: "\<not> truthy (prompt ?rq)" and u: "\<not> truthy (useLocal ?rq)" and k: "\<not> truthy (apiKey ?rq)"
    by simp_all
  from prompt_check_precedes_key_check [of ?rq, OF p u k]
  show ?thesis .
qed

section \<open>Credential validation\<close>

text \<open>
  C7: for every request that selects the cloud backend (\<^verbatim>\<open>useLocal\<close> falsy) with an
  absent or empty credential, the handler answers status 400 whatever the prompt is, and
  sends nothing out; when the prompt is non-empty the message is the one about the missing
  API key (the source's text ends with a full stop).
\<close>

theorem cloud_without_key_is_client_error:
  assumes "\<not> truthy (useLocal rq)" and "\<not> truthy (apiKey rq)"
  shows "res_status (snd (api_chat net rq)) = 400
       \<and> fst (api_chat net rq) = []
       \<and> (truthy (prompt rq) \<longrightarrow>
            snd (api_chat net rq) =
              \<lparr>res_status = 400,
               res_json = JObj [(''message'', JStr ''API Key is required for Cloud model.'')]\<rparr>)"
  using assms by (simp add: api_chat_def try_body_def cloud_branch_def)

theorem cloud_without_key_is_client_error_witness:
  "res_status (snd (api_chat
      (answering \<lparr>status = 200, statusText = ''OK'', json = Inr (JObj [])\<rparr>)
      \<lparr>prompt = JStr ''hi'', useLocal = JBool False, apiKey = JStr []\<rparr>)) = 400
   \<and> fst (api_chat
      (answering \<lparr>status = 200, statusText = ''OK'', json = Inr (JObj [])\<rparr>)
      \<lparr>prompt = JStr ''hi'', useLocal = JBool False, apiKey = JStr []\<rparr>) = []
   \<and> snd (api_chat
      (answering \<lparr>status = 200, statusText = ''OK'', json = Inr (JObj [])\<rparr>)
      \<lparr>prompt = JStr ''hi'', useLocal = JBool False, apiKey = JStr []\<rparr>)
     = \<lparr>res_status = 400,
        res_json = JObj [(''message'', JStr ''API Key is required for Cloud model.'')]\<rparr>"
proof -
  let ?rq = "\<lparr>prompt = JStr ''hi'', useLocal = JBool False, apiKey = JStr []\<rparr>"
  let ?net = "answering \<lparr>status = 200, statusText = ''OK'', json = Inr (JObj [])\<rparr>"
  have u: "\<not> truthy (useLocal ?rq)" and k: "\<not> truthy (apiKey ?rq)" and p: "truthy (prompt ?rq)"
    by simp_all
  from cloud_without_key_is_client_error [of ?rq ?net, OF u k] p
  show ?thesis by blast
qed

section \<open>What the branches see of the services\<close>


lemma nullish_cases: "nullish d = (d = JNull \<or> d = JUndefined)"
  by (cases d) simp_all

lemma local_reply:
  "truthy (prompt rq) \<Longrightarrow> truthy (useLocal rq) \<Longrightarrow>
   net (ollama_fetch (prompt rq)) = Resolved r \<Longrightarrow> ok r \<Longrightarrow> json r = Inr d \<Longrightarrow>
   \<not> nullish d \<Longrightarrow>
   snd (api_chat net rq) =
     \<lparr>res_status = 200, res_json = JObj [(''response'', read_prop d ''response'')]\<rparr>"
  by (simp add: api_chat_def local_defs get_prop_def)

lemma cloud_reply:
  "truthy (prompt rq) \<Longrightarrow> \<not> truthy (useLocal rq) \<Longrightarrow> truthy (apiKey rq) \<Longrightarrow>
   geminiApiUrl (apiKey rq) = Inr url \<Longrightarrow>
   net (gemini_fetch (prompt rq) url) = Resolved r \<Longrightarrow>
   api_chat net rq = ([gemini_fetch (prompt rq) url], finish (gemini_respond r))"
  by (simp add: api_chat_def try_body_def cloud_branch_def)

text \<open>
  A credential that cannot be converted to a string stops the cloud branch at the URL's
  template literal: nothing is sent and the outer catch answers.
\<close>

lemma cloud_unconvertible_key:
  "truthy (prompt rq) \<Longrightarrow> \<not> truthy (useLocal rq) \<Longrightarrow> truthy (apiKey rq) \<Longrightarrow>
   geminiApiUrl (apiKey rq) = Inl e \<Longrightarrow>
   api_chat net rq =
     ([], \<lparr>res_status = 500,
           res_json = JObj [(''message'', JStr (''Internal server error: '' @ message e))]\<rparr>)"
  by (simp add: api_chat_def try_body_def cloud_branch_def)

lemma collect_Inl: "collect rs = Inl e \<Longrightarrow> Inl e \<in> set rs"
  by (induction rs rule: collect.induct) (auto split: sum.splits)

lemma to_string_error: "to_string v = Inl e \<Longrightarrow> e = cannot_convert"
proof (induction v arbitrary: e rule: to_string.induct)
  case (6 xs)
  from "6.prems" have "collect (map (\<lambda>x. if nullish x then Inr [] else to_string x) xs) = Inl e"
    by (simp split: sum.splits)
  then have "Inl e \<in> set (map (\<lambda>x. if nullish x then Inr [] else to_string x) xs)"
    by (rule collect_Inl)
  then obtain x where "x \<in> set xs" and "\<not> nullish x" and "to_string x = Inl e"
    by (auto split: if_splits)
  then show ?case by (rule "6.IH")
next
  case (7 kvs)
  then show ?case by (simp split: if_splits)
qed simp_all

section \<open>The local branch\<close>

text \<open>
  C5: for every request routed to the local backend where the local service answers
  status 200 with a body whose \<^verbatim>\<open>response\<close> field is the string \<open>x\<close>, the handler answers
  200 with \<^verbatim>\<open>{ response: x }\<close>, the same string, neither trimmed nor cut.
\<close>

theorem local_text_is_verbatim:
  assumes "truthy (prompt rq)" and "truthy (useLocal rq)"
    and "net (ollama_fetch (prompt rq)) = Resolved r"
    and "status r = 200" and "json r = Inr (JObj kvs)"
    and "map_of kvs ''response'' = Some (JStr x)"
  shows "snd (api_chat net rq) =
     \<lparr>res_status = 200, res_json = JObj [(''response'', JStr x)]\<rparr>"
  using assms local_reply [of rq net r "JObj kvs"]
  by (simp add: ok_def)

theorem local_text_is_verbatim_witness:
  "snd (api_chat
          (answering \<lparr>status = 200, statusText = ''OK'',
             json = Inr (JObj [(''model'', JStr ''gemma3:12b-it-qat''),
                               (''response'', JStr ''  Restart the router.  ''),
                               (''done'', JBool True)])\<rparr>)
          \<lparr>prompt = JStr ''wifi down'', useLocal = JBool True, apiKey = JUndefined\<rparr>)
     = \<lparr>res_status = 200, res_json = JObj [(''response'', JStr ''  Restart the router.  '')]\<rparr>"
proof -
  let ?rq = "\<lparr>prompt = JStr ''wifi down'', useLocal = JBool True, apiKey = JUndefined\<rparr>"
  let ?kvs = "[(''model'', JStr ''gemma3:12b-it-qat''),
               (''response'', JStr ''  Restart the router.  ''), (''done'', JBool True)]"
  let ?r = "\<lparr>status = 200, statusText = ''OK'', json = Inr (JObj ?kvs)\<rparr>"
  have p: "truthy (prompt ?rq)" and u: "truthy (useLocal ?rq)"
    by simp_all
  have n: "answering ?r (ollama_fetch (prompt ?rq)) = Resolved ?r"
    by (simp add: answering_def)
  have s: "status ?r = 200" and j: "json ?r = Inr (JObj ?kvs)"
    by simp_all
  have m: "map_of ?kvs ''response'' = Some (JStr ''  Restart the router.  '')"
    by simp
  from local_text_is_verbatim [of ?rq "answering ?r" ?r, OF p u n s j m]
  show ?thesis .
qed

text \<open>
  C8: for every request that selects the local backend, the credential plays no part: the
  handler's requests and response are the same whatever \<^verbatim>\<open>apiKey\<close> holds, and the one
  request sent (none when the prompt is rejected) goes to the fixed local address with the
  body \<^verbatim>\<open>{ model: 'gemma3:12b-it-qat', prompt: <the prompt>, stream: false }\<close> exactly.
\<close>

theorem local_ignores_credential:
  assumes "truthy (useLocal rq)"
  shows "api_chat net (rq\<lparr>apiKey := k\<rparr>) = api_chat net rq
       \<and> fst (api_chat net rq) =
           (if truthy (prompt rq)
            then [\<lparr>req_url = ''http://localhost:11434/api/generate'', req_method = ''POST'',
                    req_headers = [(''Content-Type'', ''application/json'')],
                    req_body = JObj [(''model'', JStr ''gemma3:12b-it-qat''),
                                     (''prompt'', prompt rq), (''stream'', JBool False)]\<rparr>]
            else [])"
  using assms by (simp add: api_chat_def try_body_def local_branch_def request_defs)

theorem local_ignores_credential_witness:
  "api_chat (answering \<lparr>status = 200, statusText = ''OK'',
                         json = Inr (JObj [(''response'', JStr ''ok'')])\<rparr>)
     (\<lparr>prompt = JStr ''hi'', useLocal = JBool True, apiKey = JUndefined\<rparr>
        \<lparr>apiKey := JStr ''secret''\<rparr>)
   = api_chat (answering \<lparr>status = 200, statusText = ''OK'',
                           json = Inr (JObj [(''response'', JStr ''ok'')])\<rparr>)
       \<lparr>prompt = JStr ''hi'', useLocal = JBool True, apiKey = JUndefined\<rparr>
   \<and> fst (api_chat (answering \<lparr>status = 200, statusText = ''OK'',
                           json = Inr (JObj [(''response'', JStr ''ok'')])\<rparr>)
       \<lparr>prompt = JStr ''hi'', useLocal = JBool True, apiKey = JUndefined\<rparr>)
     = [\<lparr>req_url = ''http://localhost:11434/api/generate'', req_method = ''POST'',
         req_headers = [(''Content-Type'', ''application/json'')],
         req_body = JObj [(''model'', JStr ''gemma3:12b-it-qat''),
                          (''prompt'', JStr ''hi''), (''stream'', JBool False)]\<rparr>]"
proof -
  let ?rq = "\<lparr>prompt = JStr ''hi'', useLocal = JBool True, apiKey = JUndefined\<rparr>"
  let ?net = "answering \<lparr>status = 200, statusText = ''OK'',
                         json = Inr (JObj [(''response'', JStr ''ok'')])\<rparr>"
  have u: "truthy (useLocal ?rq)" by simp
  from local_ignores_credential [of ?rq ?net "JStr ''secret''", OF u]
  show ?thesis by simp
qed




text \<open>
  C6, as stated, fails on the exact message: when the connection to the local service is
  refused, the message returned is not the local branch's sentence alone but that sentence
  behind the prefix of the outer catch.
\<close>

theorem refused_message_is_prefixed:
  "snd (api_chat
          (failing \<lparr>code = JStr ''ECONNREFUSED'',
             message = ''request to http://localhost:11434/api/generate failed, reason: connect ECONNREFUSED 127.0.0.1:11434''\<rparr>)
          \<lparr>prompt = JStr ''hi'', useLocal = JBool True, apiKey = JUndefined\<rparr>)
     = \<lparr>res_status = 500,
        res_json = JObj [(''message'',
          JStr ''Internal server error: Could not connect to the local Ollama server. Please ensure it is running on http://localhost:11434.'')]\<rparr>
   \<and> snd (api_chat
          (failing \<lparr>code = JStr ''ECONNREFUSED'',
             message = ''request to http://localhost:11434/api/generate failed, reason: connect ECONNREFUSED 127.0.0.1:11434''\<rparr>)
          \<lparr>prompt = JStr ''hi'', useLocal = JBool True, apiKey = JUndefined\<rparr>)
     \<noteq> \<lparr>res_status = 500,
        res_json = JObj [(''message'',
          JStr ''Could not connect to the local Ollama server. Please ensure it is running on http://localhost:11434.'')]\<rparr>"
  by (simp add: api_chat_def local_defs failing_def)

text \<open>
  C6, amended: for every request routed to the local backend where the connection to the
  local service is refused (\<^verbatim>\<open>e.code === 'ECONNREFUSED'\<close>), the handler answers 500 with
  the message \<open>Internal server error: Could not connect to the local Ollama server. Please
  ensure it is running on http://localhost:11434.\<close>, which contains the local address.
\<close>

theorem refused_connection_names_address:
  assumes "truthy (prompt rq)" and "truthy (useLocal rq)"
    and "net (ollama_fetch (prompt rq)) = Rejected e"
    and "code e = JStr ''ECONNREFUSED''"
  shows "snd (api_chat net rq) =
     \<lparr>res_status = 500,
      res_json = JObj [(''message'',
        JStr (''Internal server error: Could not connect to the local Ollama server. Please ensure it is running on ''
              @ ''http://localhost:11434'' @ ''.''))]\<rparr>"
  using assms by (simp add: api_chat_def local_defs)

theorem refused_connection_names_address_witness:
  "snd (api_chat
          (failing \<lparr>code = JStr ''ECONNREFUSED'', message = ''connect ECONNREFUSED 127.0.0.1:11434''\<rparr>)
          \<lparr>prompt = JStr ''printer jams'', useLocal = JNum ''1'', apiKey = JStr ''unused''\<rparr>)
     = \<lparr>res_status = 500,
        res_json = JObj [(''message'',
          JStr (''Internal server error: Could not connect to the local Ollama server. Please ensure it is running on ''
                @ ''http://localhost:11434'' @ ''.''))]\<rparr>"
proof -
  let ?rq = "\<lparr>prompt = JStr ''printer jams'', useLocal = JNum ''1'', apiKey = JStr ''unused''\<rparr>"
  let ?e = "\<lparr>code = JStr ''ECONNREFUSED'', message = ''connect ECONNREFUSED 127.0.0.1:11434''\<rparr>"
  have p: "truthy (prompt ?rq)" and u: "truthy (useLocal ?rq)"
    by simp_all
  have n: "failing ?e (ollama_fetch (prompt ?rq)) = Rejected ?e"
    by (simp add: failing_def)
  have c: "code ?e = JStr ''ECONNREFUSED''" by simp
  from refused_connection_names_address [of ?rq "failing ?e" ?e, OF p u n c]
  show ?thesis .
qed

section \<open>The cloud branch\<close>

text \<open>
  C3, as stated, fails: when the cloud service answers 403 with
  \<^verbatim>\<open>{ error: { message: "bad key" } }\<close>, the message returned is not \<open>bad key\<close> but
  \<open>Internal server error: bad key\<close>.
\<close>

theorem bad_key_message_is_prefixed:
  "snd (api_chat
          (answering \<lparr>status = 403, statusText = ''Forbidden'',
             json = Inr (JObj [(''error'', JObj [(''message'', JStr ''bad key'')])])\<rparr>)
          \<lparr>prompt = JStr ''hi'', useLocal = JBool False, apiKey = JStr ''k''\<rparr>)
     = \<lparr>res_status = 500,
        res_json = JObj [(''message'', JStr ''Internal server error: bad key'')]\<rparr>
   \<and> snd (api_chat
          (answering \<lparr>status = 403, statusText = ''Forbidden'',
             json = Inr (JObj [(''error'', JObj [(''message'', JStr ''bad key'')])])\<rparr>)
          \<lparr>prompt = JStr ''hi'', useLocal = JBool False, apiKey = JStr ''k''\<rparr>)
     \<noteq> \<lparr>res_status = 500, res_json = JObj [(''message'', JStr ''bad key'')]\<rparr>"
  by (simp add: api_chat_def cloud_defs answering_def ok_def access_defs)

text \<open>
  C3, amended: for every request routed to the cloud backend (non-empty prompt, a
  credential that is non-empty and converts to a string, so that the request is sent)
  where the service answers a non-success status, the handler answers 500 and the message
  is \<open>Internal server error: \<close> followed by
  \<^item> the string form of the body's \<^verbatim>\<open>error?.message\<close> when the body is not \<^verbatim>\<open>null\<close> and
    that field is truthy (the field itself when it is a string);
  \<^item> \<open>Gemini API request failed\<close> when the body is not \<^verbatim>\<open>null\<close> and that field is
    absent or falsy, whatever \<^verbatim>\<open>error\<close> is;
  \<^item> the message of the exception otherwise: the one \<^verbatim>\<open>.json()\<close> throws on an unreadable
    body, the TypeError of reading \<^verbatim>\<open>error\<close> on a \<^verbatim>\<open>null\<close> body, or the TypeError of
    converting a field that has no string form.
\<close>

theorem cloud_error_status_message:
  assumes "truthy (prompt rq)" and "\<not> truthy (useLocal rq)" and "truthy (apiKey rq)"
    and "geminiApiUrl (apiKey rq) = Inr url"
    and "net (gemini_fetch (prompt rq) url) = Resolved r"
    and "\<not> ok r"
  shows "snd (api_chat net rq) =
     \<lparr>res_status = 500,
      res_json = JObj [(''message'', JStr (''Internal server error: '' @
        (case json r of
           Inl e \<Rightarrow> message e
         | Inr errorData \<Rightarrow>
             if errorData = JNull
             then ''Cannot read properties of null (reading 'error')''
             else if errorData = JUndefined
             then ''Cannot read properties of undefined (reading 'error')''
             else if \<not> truthy (opt_prop (read_prop errorData ''error'') ''message'')
             then ''Gemini API request failed''
             else (case to_string (opt_prop (read_prop errorData ''error'') ''message'') of
                     Inr s \<Rightarrow> s
                   | Inl e \<Rightarrow> ''Cannot convert object to primitive value''))))]\<rparr>"
proof (cases "json r")
  case (Inl e)
  with assms cloud_reply [of rq url net r] show ?thesis
    by (simp add: gemini_respond_def)
next
  case (Inr d)
  show ?thesis
  proof (cases "nullish d")
    case True
    with Inr assms cloud_reply [of rq url net r] show ?thesis
      by (auto simp add: nullish_cases gemini_respond_def gemini_error_arg_def get_prop_def
          type_error_def)
  next
    case False
    then have d: "d \<noteq> JNull" "d \<noteq> JUndefined" by (simp_all add: nullish_cases)
    from False Inr assms cloud_reply [of rq url net r] d show ?thesis
      by (auto simp add: gemini_respond_def gemini_error_arg_def get_prop_def throw_new_Error_def
          cannot_convert_def Let_def split: sum.split dest!: to_string_error)
  qed
qed

theorem cloud_error_status_message_witness:
  "snd (api_chat
          (answering \<lparr>status = 403, statusText = ''Forbidden'',
             json = Inr (JObj [(''error'', JObj [(''message'', JStr ''bad key'')])])\<rparr>)
          \<lparr>prompt = JStr ''hi'', useLocal = JBool False, apiKey = JStr ''k''\<rparr>)
     = \<lparr>res_status = 500,
        res_json = JObj [(''message'', JStr ''Internal server error: bad key'')]\<rparr>
   \<and> snd (api_chat
          (answering \<lparr>status = 429, statusText = ''Too Many Requests'',
             json = Inr (JObj [(''error'', JStr ''quota'')])\<rparr>)
          \<lparr>prompt = JStr ''hi'', useLocal = JBool False, apiKey = JStr ''k''\<rparr>)
     = \<lparr>res_status = 500,
        res_json = JObj [(''message'', JStr ''Internal server error: Gemini API request failed'')]\<rparr>
   \<and> snd (api_chat
          (answering \<lparr>status = 400, statusText = ''Bad Request'',
             json = Inr (JObj [(''error'', JObj [(''message'', JObj [(''toString'', JNull)])])])\<rparr>)
          \<lparr>prompt = JStr ''hi'', useLocal = JBool False, apiKey = JStr ''k''\<rparr>)
     = \<lparr>res_status = 500,
        res_json = JObj [(''message'',
          JStr ''Internal server error: Cannot convert object to primitive value'')]\<rparr>
   \<and> snd (api_chat
          (answering \<lparr>status = 502, statusText = ''Bad Gateway'', json = Inr JNull\<rparr>)
          \<lparr>prompt = JStr ''hi'', useLocal = JBool False, apiKey = JStr ''k''\<rparr>)
     = \<lparr>res_status = 500,
        res_json = JObj [(''message'',
          JStr ''Internal server error: Cannot read properties of null (reading 'error')'')]\<rparr>"
proof -
  let ?rq = "\<lparr>prompt = JStr ''hi'', useLocal = JBool False, apiKey = JStr ''k''\<rparr>"
  let ?url = "''https://generativelanguage.googleapis.com/v1beta/models/gemini-2.0-flash:generateContent?key=k''"
  let ?r1 = "\<lparr>status = 403, statusText = ''Forbidden'',
               json = Inr (JObj [(''error'', JObj [(''message'', JStr ''bad key'')])])\<rparr>"
  let ?r2 = "\<lparr>status = 429, statusText = ''Too Many Requests'',
               json = Inr (JObj [(''error'', JStr ''quota'')])\<rparr>"
  let ?r3 = "\<lparr>status = 400, statusText = ''Bad Request'',
               json = Inr (JObj [(''error'', JObj [(''message'', JObj [(''toString'', JNull)])])])\<rparr>"
  let ?r4 = "\<lparr>status = 502, statusText = ''Bad Gateway'', json = Inr JNull\<rparr>"
  have p: "truthy (prompt ?rq)" and u: "\<not> truthy (useLocal ?rq)" and k: "truthy (apiKey ?rq)"
    by simp_all
  have g: "geminiApiUrl (apiKey ?rq) = Inr ?url"
    by (simp add: geminiApiUrl_def)
  have n: "answering r (gemini_fetch (prompt ?rq) ?url) = Resolved r" for r
    by (simp add: answering_def)
  have o: "\<not> ok ?r1" "\<not> ok ?r2" "\<not> ok ?r3" "\<not> ok ?r4"
    by (simp_all add: ok_def)
  have "snd (api_chat (answering ?r1) ?rq) =
      \<lparr>res_status = 500,
       res_json = JObj [(''message'', JStr ''Internal server error: bad key'')]\<rparr>"
    using cloud_error_status_message [of ?rq ?url "answering ?r1" ?r1, OF p u k g n o(1)]
    by (simp add: opt_prop_def)
  moreover have "snd (api_chat (answering ?r2) ?rq) =
      \<lparr>res_status = 500,
       res_json = JObj [(''message'', JStr ''Internal server error: Gemini API request failed'')]\<rparr>"
    using cloud_error_status_message [of ?rq ?url "answering ?r2" ?r2, OF p u k g n o(2)]
    by (simp add: opt_prop_def)
  moreover have "snd (api_chat (answering ?r3) ?rq) =
      \<lparr>res_status = 500,
       res_json = JObj [(''message'',
         JStr ''Internal server error: Cannot convert object to primitive value'')]\<rparr>"
    using cloud_error_status_message [of ?rq ?url "answering ?r3" ?r3, OF p u k g n o(3)]
    by (simp add: opt_prop_def)
  moreover have "snd (api_chat (answering ?r4) ?rq) =
      \<lparr>res_status = 500,
       res_json = JObj [(''message'',
         JStr ''Internal server error: Cannot read properties of null (reading 'error')'')]\<rparr>"
    using cloud_error_status_message [of ?rq ?url "answering ?r4" ?r4, OF p u k g n o(4)]
    by simp
  ultimately show ?thesis by blast
qed

text \<open>
  C4, as stated, fails on the exact message: when the cloud service answers 200 with an
  empty \<^verbatim>\<open>candidates\<close> array, the message returned carries the prefix of the outer catch.
\<close>

theorem empty_candidates_message_is_prefixed:
  "snd (api_chat
          (answering \<lparr>status = 200, statusText = ''OK'',
             json = Inr (JObj [(''candidates'', JArr [])])\<rparr>)
          \<lparr>prompt = JStr ''hi'', useLocal = JBool False, apiKey = JStr ''k''\<rparr>)
     = \<lparr>res_status = 500,
        res_json = JObj [(''message'',
          JStr ''Internal server error: No content found in Gemini API response.'')]\<rparr>
   \<and> snd (api_chat
          (answering \<lparr>status = 200, statusText = ''OK'',
             json = Inr (JObj [(''candidates'', JArr [])])\<rparr>)
          \<lparr>prompt = JStr ''hi'', useLocal = JBool False, apiKey = JStr ''k''\<rparr>)
     \<noteq> \<lparr>res_status = 500,
        res_json = JObj [(''message'', JStr ''No content found in Gemini API response.'')]\<rparr>"
  by (simp add: api_chat_def cloud_defs answering_def ok_def access_defs)

text \<open>
  C4, amended: for every request routed to the cloud backend (non-empty prompt, a
  credential that is non-empty and converts to a string, so that the request is sent)
  where the service answers a success status with a JSON value in which
  \<^verbatim>\<open>candidates?.[0]?.content?.parts?.[0]?.text\<close> is absent or otherwise falsy, the
  handler answers 500; the message is
  \<open>Internal server error: No content found in Gemini API response.\<close> unless the body is
  \<^verbatim>\<open>null\<close>, where it is \<open>Internal server error: \<close> followed by the TypeError of reading
  \<^verbatim>\<open>candidates\<close> on \<^verbatim>\<open>null\<close>.
\<close>

theorem cloud_missing_text_is_failure:
  assumes "truthy (prompt rq)" and "\<not> truthy (useLocal rq)" and "truthy (apiKey rq)"
    and "geminiApiUrl (apiKey rq) = Inr url"
    and "net (gemini_fetch (prompt rq) url) = Resolved r"
    and "ok r" and "json r = Inr geminiResult"
    and "\<not> truthy (opt_prop (opt_elem0 (opt_prop (opt_prop (opt_elem0
            (opt_prop geminiResult ''candidates'')) ''content'') ''parts'')) ''text'')"
  shows "snd (api_chat net rq) =
     \<lparr>res_status = 500,
      res_json = JObj [(''message'', JStr (''Internal server error: '' @
        (if geminiResult = JNull
         then ''Cannot read properties of null (reading 'candidates')''
         else if geminiResult = JUndefined
         then ''Cannot read properties of undefined (reading 'candidates')''
         else ''No content found in Gemini API response.'')))]\<rparr>"
proof (cases "nullish geminiResult")
  case True
  with assms cloud_reply [of rq url net r] show ?thesis
    by (auto simp add: nullish_cases gemini_respond_def gemini_text_def get_prop_def
        type_error_def)
next
  case False
  then have d: "geminiResult \<noteq> JNull" "geminiResult \<noteq> JUndefined"
    by (simp_all add: nullish_cases)
  from False have "opt_prop geminiResult ''candidates'' = read_prop geminiResult ''candidates''"
    by (simp add: opt_prop_def)
  with False assms cloud_reply [of rq url net r] d show ?thesis
    by (simp add: gemini_respond_def gemini_text_def get_prop_def throw_new_Error_def)
qed

theorem cloud_missing_text_is_failure_witness:
  "snd (api_chat
          (answering \<lparr>status = 200, statusText = ''OK'',
             json = Inr (JObj [(''candidates'', JArr [])])\<rparr>)
          \<lparr>prompt = JStr ''tell me'', useLocal = JNull, apiKey = JStr ''key''\<rparr>)
     = \<lparr>res_status = 500,
        res_json = JObj [(''message'',
          JStr ''Internal server error: No content found in Gemini API response.'')]\<rparr>
   \<and> snd (api_chat
          (answering \<lparr>status = 200, statusText = ''OK'', json = Inr JNull\<rparr>)
          \<lparr>prompt = JStr ''tell me'', useLocal = JNull, apiKey = JStr ''key''\<rparr>)
     = \<lparr>res_status = 500,
        res_json = JObj [(''message'',
          JStr ''Internal server error: Cannot read properties of null (reading 'candidates')'')]\<rparr>"
proof -
  let ?rq = "\<lparr>prompt = JStr ''tell me'', useLocal = JNull, apiKey = JStr ''key''\<rparr>"
  let ?url = "''https://generativelanguage.googleapis.com/v1beta/models/gemini-2.0-flash:generateContent?key=key''"
  let ?d1 = "JObj [(''candidates'', JArr [])]"
  let ?r1 = "\<lparr>status = 200, statusText = ''OK'', json = Inr ?d1\<rparr>"
  let ?r2 = "\<lparr>status = 200, statusText = ''OK'', json = Inr JNull\<rparr>"
  have p: "truthy (prompt ?rq)" and u: "\<not> truthy (useLocal ?rq)" and k: "truthy (apiKey ?rq)"
    by simp_all
  have g: "geminiApiUrl (apiKey ?rq) = Inr ?url"
    by (simp add: geminiApiUrl_def)
  have n: "answering r (gemini_fetch (prompt ?rq) ?url) = Resolved r" for r
    by (simp add: answering_def)
  have o: "ok ?r1" "ok ?r2"
    by (simp_all add: ok_def)
  have j: "json ?r1 = Inr ?d1" "json ?r2 = Inr JNull"
    by simp_all
  have f1: "\<not> truthy (opt_prop (opt_elem0 (opt_prop (opt_prop (opt_elem0
            (opt_prop ?d1 ''candidates'')) ''content'') ''parts'')) ''text'')"
    by (simp add: access_defs)
  have f2: "\<not> truthy (opt_prop (opt_elem0 (opt_prop (opt_prop (opt_elem0
            (opt_prop JNull ''candidates'')) ''content'') ''parts'')) ''text'')"
    by (simp add: access_defs)
  have "snd (api_chat (answering ?r1) ?rq) =
      \<lparr>res_status = 500,
       res_json = JObj [(''message'',
         JStr ''Internal server error: No content found in Gemini API response.'')]\<rparr>"
    using cloud_missing_text_is_failure
        [of ?rq ?url "answering ?r1" ?r1 ?d1, OF p u k g n o(1) j(1) f1]
    by simp
  moreover have "snd (api_chat (answering ?r2) ?rq) =
      \<lparr>res_status = 500,
       res_json = JObj [(''message'',
         JStr ''Internal server error: Cannot read properties of null (reading 'candidates')'')]\<rparr>"
    using cloud_missing_text_is_failure
        [of ?rq ?url "answering ?r2" ?r2 JNull, OF p u k g n o(2) j(2) f2]
    by simp
  ultimately show ?thesis by blast
qed

end
